theory Spec2Isabelle
  imports Main
begin

section \<open>JavaScript values, errors and the network\<close>

text \<open>
  The front-end controller (class \<open>RLGCore\<close> and its services \<open>CulturalManager\<close>,
  \<open>NetworkHandler\<close>) is asynchronous JavaScript. A promise that rejects, or a
  \<open>throw\<close>, is the left summand of a sum type; a value that is returned is the
  right summand.
\<close>

datatype error =
    Error string           \<comment> \<open>\<open>new Error(message)\<close>\<close>
  | TypeError string       \<comment> \<open>what \<open>fetch\<close> rejects with, and property reads of \<open>undefined\<close>\<close>
  | SyntaxError string     \<comment> \<open>what \<open>response.json()\<close> rejects with on a malformed body\<close>
  | ReferenceError string  \<comment> \<open>the use of a name that is not defined\<close>

text \<open>
  A \<open>Response\<close> as the code uses it: the flag \<open>ok\<close> and the outcome of
  \<open>response.json()\<close>, which is the parsed body or a rejection.
\<close>

record 'j response =
  ok :: bool
  json :: "error + 'j"

text \<open>
  What is passed to \<open>fetch\<close>: the URL, the method and the body. The type \<open>'d\<close> is
  that of a serialised payload; \<open>None\<close> is the \<open>null\<close> body.
\<close>

record 'd request =
  url :: string
  http_method :: string   \<comment> \<open>the field \<open>method\<close>\<close>
  body :: "'d option"

text \<open>
  The network is the environment: it decides the outcome of every call of \<open>fetch\<close>.
  The outcome may depend on the request and on which call it is (the calls are counted
  from the start of the page), so that the same request may fail once and succeed later.
  \<open>Inl e\<close>: the promise rejects with \<open>e\<close>; \<open>Inr r\<close>: it resolves to the response \<open>r\<close>.
\<close>

type_synonym ('d, 'j) network = "'d request \<Rightarrow> nat \<Rightarrow> error + 'j response"

record net_state =
  calls :: nat       \<comment> \<open>number of \<open>fetch\<close> calls made so far\<close>
  waited_ms :: nat   \<comment> \<open>total time spent in \<open>setTimeout\<close> delays\<close>

definition fetch :: "('d, 'j) network \<Rightarrow> 'd request \<Rightarrow> net_state \<Rightarrow> (error + 'j response) \<times> net_state" where
  "fetch net req s = (net req (calls s), s\<lparr>calls := Suc (calls s)\<rparr>)"

definition sleep :: "nat \<Rightarrow> net_state \<Rightarrow> net_state" where
  "sleep ms s = s\<lparr>waited_ms := waited_ms s + ms\<rparr>"

section \<open>NetworkHandler\<close>

text \<open>
  \<^verbatim>\<open>
  async fetchWithRetry(url, method, data, options = {}, retries = 3) {
    try {
      const response = await fetch(url, {
        method,
        body: data ? JSON.stringify(data) : null,
        ...options
      });

      if (!response.ok) throw new Error('Network Error');
      return response.json();
    } catch (error) {
      if (retries > 0) {
        await new Promise(resolve => setTimeout(resolve, 1000));
        return this.fetchWithRetry(url, method, data, options, retries - 1);
      }
      throw error;
    }
  }
  \<close>
\<close>

text \<open>
  \<open>data ? JSON.stringify(data) : null\<close> is evaluated inside the \<open>try\<close>, on every
  attempt, before \<open>fetch\<close> is called. \<open>data\<close> is \<open>None\<close> when it is falsy (as the
  \<open>null\<close> that \<open>get\<close> passes) and \<open>Some p\<close> for a payload \<open>p\<close>; \<open>JSON.stringify\<close> is
  a parameter, which returns the text or throws (on a circular structure, for one).
\<close>

definition serialise :: "('p \<Rightarrow> error + 'd) \<Rightarrow> 'p option \<Rightarrow> error + 'd option" where
  "serialise stringify data =
     (case data of
        None \<Rightarrow> Inr None
      | Some p \<Rightarrow> (case stringify p of Inl e \<Rightarrow> Inl e | Inr t \<Rightarrow> Inr (Some t)))"

text \<open>
  \<open>...options\<close> comes last in the object literal, so a \<open>method\<close> or a \<open>body\<close> among the
  caller's options replaces the one computed. The other members of \<open>options\<close> can only
  change what the network answers, which the network parameter leaves free.
\<close>

record 'd options =
  override_method :: "string option"
  override_body :: "'d option option"

definition no_options :: "'d options" where
  "no_options = \<lparr>override_method = None, override_body = None\<rparr>"

definition fetch_init :: "string \<Rightarrow> string \<Rightarrow> 'd option \<Rightarrow> 'd options \<Rightarrow> 'd request" where
  "fetch_init u m b opts =
     \<lparr>url = u,
      http_method = (case override_method opts of Some m' \<Rightarrow> m' | None \<Rightarrow> m),
      body = (case override_body opts of Some b' \<Rightarrow> b' | None \<Rightarrow> b)\<rparr>"

text \<open>
  \<open>return response.json()\<close> is not awaited inside the \<open>try\<close>, so a rejection of
  \<open>json()\<close> is not caught: it is the outcome of the whole call. \<open>retries\<close> is a
  JavaScript number; the model takes an integer.
\<close>

function fetchWithRetry ::
  "('p \<Rightarrow> error + 'd) \<Rightarrow> ('d, 'j) network \<Rightarrow> string \<Rightarrow> string \<Rightarrow> 'p option \<Rightarrow> 'd options \<Rightarrow> int
     \<Rightarrow> net_state \<Rightarrow> (error + 'j) \<times> net_state"
where
  "fetchWithRetry stringify net u m data opts retries s =
     (case serialise stringify data of
        Inl e \<Rightarrow>
          if retries > 0
          then fetchWithRetry stringify net u m data opts (retries - 1) (sleep 1000 s)
          else (Inl e, s)
      | Inr b \<Rightarrow>
          (case fetch net (fetch_init u m b opts) s of
             (Inr r, s1) \<Rightarrow>
               if ok r then (json r, s1)
               else if retries > 0
               then fetchWithRetry stringify net u m data opts (retries - 1) (sleep 1000 s1)
               else (Inl (Error ''Network Error''), s1)
           | (Inl e, s1) \<Rightarrow>
               if retries > 0
               then fetchWithRetry stringify net u m data opts (retries - 1) (sleep 1000 s1)
               else (Inl e, s1)))"
  by pat_completeness auto
termination
  by (relation "measure (\<lambda>(stringify, net, u, m, data, opts, retries, s). nat retries)") auto

declare fetchWithRetry.simps [simp del]

text \<open>
  \<^verbatim>\<open>
  async get(url, options) { return this.fetchWithRetry(url, 'GET', null, options); }
  async post(url, data, options) { return this.fetchWithRetry(url, 'POST', data, options); }
  \<close>
  Both leave out the fifth argument: \<open>retries\<close> is 3.
\<close>

definition default_retries :: int where
  "default_retries = 3"

definition get ::
  "('p \<Rightarrow> error + 'd) \<Rightarrow> ('d, 'j) network \<Rightarrow> string \<Rightarrow> 'd options \<Rightarrow> net_state \<Rightarrow> (error + 'j) \<times> net_state" where
  "get stringify net u opts s = fetchWithRetry stringify net u ''GET'' None opts default_retries s"

definition post ::
  "('p \<Rightarrow> error + 'd) \<Rightarrow> ('d, 'j) network \<Rightarrow> string \<Rightarrow> 'p option \<Rightarrow> 'd options \<Rightarrow> net_state \<Rightarrow> (error + 'j) \<times> net_state" where
  "post stringify net u data opts s = fetchWithRetry stringify net u ''POST'' data opts default_retries s"

text \<open>
  The attempts of one call of \<open>fetchWithRetry\<close>, counted from 0: when the payload can be
  serialised, attempt \<open>i\<close> is the \<open>fetch\<close> call number \<open>calls s + i\<close> of the page. An
  attempt fails when \<open>fetch\<close> rejects or the response has \<open>ok = false\<close>. After \<open>k\<close>
  attempts the handler has slept \<open>k - 1\<close> times.
\<close>

definition attempt :: "('d, 'j) network \<Rightarrow> 'd request \<Rightarrow> net_state \<Rightarrow> nat \<Rightarrow> error + 'j response" where
  "attempt net req s i = net req (calls s + i)"

definition attempt_error :: "error + 'j response \<Rightarrow> error option" where
  "attempt_error out =
     (case out of
        Inl e \<Rightarrow> Some e
      | Inr r \<Rightarrow> if ok r then None else Some (Error ''Network Error''))"

definition after_attempts :: "net_state \<Rightarrow> nat \<Rightarrow> net_state" where
  "after_attempts s k = s\<lparr>calls := calls s + k, waited_ms := waited_ms s + 1000 * (k - 1)\<rparr>"

text \<open>
  Payloads and networks to run the handler on: a payload that is its own text and one
  that cannot be serialised; a network that answers at the third call, one that never
  answers, and one whose answer has \<open>ok = true\<close> and a body that is not JSON.
\<close>

definition stringify_text :: "string \<Rightarrow> error + string" where
  "stringify_text p = Inr p"

definition stringify_circular :: "string \<Rightarrow> error + string" where
  "stringify_circular p = Inl (TypeError ''Converting circular structure to JSON'')"

definition flaky_net :: "(string, nat) network" where
  "flaky_net req n =
     (if n = 2 then Inr \<lparr>ok = True, json = Inr 7\<rparr> else Inl (TypeError ''Failed to fetch''))"

definition down_net :: "(string, nat) network" where
  "down_net req n =
     (if n < 3 then Inr \<lparr>ok = False, json = Inr 0\<rparr> else Inl (TypeError ''Failed to fetch''))"

definition html_net :: "(string, nat) network" where
  "html_net req n = Inr \<lparr>ok = True, json = Inl (SyntaxError ''Unexpected token in JSON'')\<rparr>"

section \<open>CulturalManager\<close>

text \<open>
  The values a JavaScript expression of the controller can have: JSON data, \<open>undefined\<close>,
  and the members every object inherits from \<open>Object.prototype\<close> (\<open>Builtin\<close>, by name).
  Numbers are integers here.
\<close>

datatype js_value =
    Undefined
  | Null
  | Bool bool
  | Num int
  | Str string
  | Arr "js_value list"
  | Obj "(string \<times> js_value) list"
  | Builtin string

text \<open>What \<open>v || w\<close> tests: \<open>undefined\<close>, \<open>null\<close>, \<open>false\<close>, \<open>0\<close> and \<open>""\<close> are falsy.\<close>

fun truthy :: "js_value \<Rightarrow> bool" where
  "truthy Undefined = False"
| "truthy Null = False"
| "truthy (Bool b) = b"
| "truthy (Num n) = (n \<noteq> 0)"
| "truthy (Str s) = (s \<noteq> [])"
| "truthy (Arr vs) = True"
| "truthy (Obj ps) = True"
| "truthy (Builtin f) = True"

definition js_or :: "js_value \<Rightarrow> js_value \<Rightarrow> js_value" where
  "js_or v w = (if truthy v then v else w)"

text \<open>
  \<open>table[key]\<close> on a plain object: the object's own entry if there is one, else the
  member of that name inherited from \<open>Object.prototype\<close>, else \<open>undefined\<close>.
\<close>

definition object_prototype :: "string list" where
  "object_prototype =
     [''constructor'', ''hasOwnProperty'', ''isPrototypeOf'', ''propertyIsEnumerable'',
      ''toLocaleString'', ''toString'', ''valueOf'', ''__proto__'',
      ''__defineGetter__'', ''__defineSetter__'', ''__lookupGetter__'', ''__lookupSetter__'']"

definition get_property :: "(string \<rightharpoonup> js_value) \<Rightarrow> string \<Rightarrow> js_value" where
  "get_property table key =
     (case table key of
        Some v \<Rightarrow> v
      | None \<Rightarrow> if key \<in> set object_prototype then Builtin key else Undefined)"

text \<open>
  \<open>localeSettings\<close> is \<open>{}\<close> after the constructor and \<open>regionData.settings\<close> after
  \<open>detectRegionalSettings\<close>, which may be \<open>undefined\<close>: the settings object is optional,
  and so is its table of translations. Of the settings, only that table is read by
  the functions modelled here.
\<close>

record locale_settings =
  translations_table :: "(string \<rightharpoonup> js_value) option"   \<comment> \<open>the field \<open>translations\<close>\<close>

record cultural_manager =
  currentRegion :: string
  localeSettings :: "locale_settings option"
  holidays :: js_value

text \<open>
  \<^verbatim>\<open>
  constructor() {
    this.currentRegion = 'GLOBAL';
    this.localeSettings = {};
    this.holidays = [];
  }
  \<close>
\<close>

definition new_CulturalManager :: cultural_manager where
  "new_CulturalManager =
     \<lparr>currentRegion = ''GLOBAL'', localeSettings = Some \<lparr>translations_table = None\<rparr>, holidays = Arr []\<rparr>"

text \<open>
  \<^verbatim>\<open>
  translate(key) {
    return this.localeSettings.translations[key] || key;
  }
  \<close>
  Reading a property of \<open>undefined\<close> throws a \<open>TypeError\<close>.
\<close>

definition translate :: "cultural_manager \<Rightarrow> string \<Rightarrow> error + js_value" where
  "translate cm key =
     (case localeSettings cm of
        None \<Rightarrow> Inl (TypeError ''Cannot read properties of undefined (reading translations)'')
      | Some ls \<Rightarrow>
          (case translations_table ls of
             None \<Rightarrow> Inl (TypeError ''Cannot read properties of undefined'')
           | Some table \<Rightarrow> Inr (js_or (get_property table key) (Str key))))"

text \<open>A manager whose settings hold the given table of translations.\<close>

definition manager_with :: "(string \<rightharpoonup> js_value) \<Rightarrow> cultural_manager" where
  "manager_with table =
     new_CulturalManager\<lparr>localeSettings := Some \<lparr>translations_table = Some table\<rparr>\<rparr>"

text \<open>
  The state \<open>loadHolidayData\<close> works on: the manager, the errors that
  \<open>RLG.modules.analytics.trackError\<close> has taken, and the network.
\<close>

record app_state =
  cultural :: cultural_manager
  tracked :: "error list"
  netState :: net_state

text \<open>
  \<open>TelemetryService\<close>, the class of \<open>RLG.modules.analytics\<close>, is not part of the
  repository, so \<open>RLG.modules.analytics.trackError(error)\<close> is a parameter: it takes the
  error and returns (\<open>None\<close>), or it throws (\<open>Some e'\<close>), as it does with a
  \<open>ReferenceError\<close> when nothing defines \<open>RLG\<close>.
\<close>

type_synonym tracker = "error \<Rightarrow> error option"

definition digit_char :: "nat \<Rightarrow> char" where
  "digit_char k = ''0123456789'' ! (k mod 10)"

fun decimal :: "nat \<Rightarrow> string" where
  "decimal n = (if n < 10 then [digit_char n] else decimal (n div 10) @ [digit_char n])"

declare decimal.simps [simp del]

definition holidayRequest :: "nat \<Rightarrow> string \<Rightarrow> 'd request" where
  "holidayRequest year region =
     \<lparr>url = ''https://date.nager.at/api/v3/PublicHolidays/'' @ decimal year @ ''/'' @ region,
      http_method = ''GET'', body = None\<rparr>"

text \<open>
  \<^verbatim>\<open>
  async loadHolidayData() {
    try {
      this.holidays = await fetch(`https://date.nager.at/api/v3/PublicHolidays/${new Date().getFullYear()}/${this.currentRegion}`)
        .then(res => res.json());
    } catch (error) {
      RLG.modules.analytics.trackError(error);
    }
  }
  \<close>
  \<open>year\<close> is what \<open>new Date().getFullYear()\<close> returns. \<open>res.ok\<close> is not looked at.
  The rejections of \<open>fetch\<close> and of \<open>res.json()\<close> are caught; what \<open>trackError\<close>
  throws inside the \<open>catch\<close> is not, and rejects the call. The result is the outcome
  of the call, fulfilled or rejected, and the new state.
\<close>

definition catch_trackError :: "tracker \<Rightarrow> error \<Rightarrow> app_state \<Rightarrow> net_state \<Rightarrow> (error + unit) \<times> app_state" where
  "catch_trackError trackError e a s1 =
     (case trackError e of
        None \<Rightarrow> (Inr (), a\<lparr>tracked := tracked a @ [e], netState := s1\<rparr>)
      | Some e' \<Rightarrow> (Inl e', a\<lparr>netState := s1\<rparr>))"

definition loadHolidayData ::
  "('d, js_value) network \<Rightarrow> tracker \<Rightarrow> nat \<Rightarrow> app_state \<Rightarrow> (error + unit) \<times> app_state" where
  "loadHolidayData nw trackError year a =
     (case fetch nw (holidayRequest year (currentRegion (cultural a))) (netState a) of
        (Inr res, s1) \<Rightarrow>
          (case json res of
             Inr v \<Rightarrow> (Inr (), a\<lparr>cultural := (cultural a)\<lparr>holidays := v\<rparr>, netState := s1\<rparr>)
           | Inl e \<Rightarrow> catch_trackError trackError e a s1)
      | (Inl e, s1) \<Rightarrow> catch_trackError trackError e a s1)"


text \<open>
  A page whose manager is set to South Africa, and the same page once it holds a holiday
  list as the service sends it; a network whose first call times out and whose later calls
  answer, one that is down, and one that always answers; a \<open>trackError\<close> that returns,
  and the one of a page on which \<open>RLG\<close> is not defined.
\<close>

definition page_ZA :: app_state where
  "page_ZA = \<lparr>cultural = new_CulturalManager\<lparr>currentRegion := ''ZA''\<rparr>, tracked = [],
              netState = \<lparr>calls = 0, waited_ms = 0\<rparr>\<rparr>"

definition new_year :: js_value where
  "new_year = Arr [Obj [(''date'', Str ''2026-01-01''), (''localName'', Str ''New Year'')]]"


definition late_net :: "(string, js_value) network" where
  "late_net req n =
     (if n = 0 then Inl (TypeError ''Failed to fetch'') else Inr \<lparr>ok = True, json = Inr new_year\<rparr>)"


definition steady_net :: "(string, js_value) network" where
  "steady_net req n = Inr \<lparr>ok = True, json = Inr new_year\<rparr>"

definition telemetry_records :: tracker where
  "telemetry_records e = None"


section \<open>Overlap urgency\<close>

text \<open>
  The repository declares the urgency levels of its overlap calculator as data
  (\<open>api/sadc-openapi.yml\<close>, \<open>reporting_engine.team_analytics.overlap_calculator\<close>):
  \<^verbatim>\<open>
  "urgency_levels": { "red": "<1h_overlap", "amber": "1-2h_overlap", "green": ">2h_overlap" }
  \<close>
  Durations are in seconds. The two thresholds are configuration: below the first a
  window is red, below the second it is amber.
\<close>

datatype urgency = Red | Amber | Green

record urgency_thresholds =
  red_below :: nat
  amber_below :: nat

definition default_thresholds :: urgency_thresholds where
  "default_thresholds = \<lparr>red_below = 3600, amber_below = 7200\<rparr>"

text \<open>
  Modelled from the spec: the function that classifies an overlap window by its duration
  is missing from the repository, which holds the levels as data only. Section 3 of the
  specification: red if overlap < 1h, amber if 1-2h, green if > 2h, the thresholds being
  configuration that a request may override. Section 8 fixes the boundaries: 59m59s is
  red, 1h00m00s is amber, 1h59m59s is amber, 2h00m00s is green. So a window that lasts
  exactly the upper threshold is green.
\<close>

definition classifyUrgency :: "urgency_thresholds \<Rightarrow> nat \<Rightarrow> urgency" where
  "classifyUrgency th d =
     (if d < red_below th then Red
      else if d < amber_below th then Amber
      else Green)"

section \<open>Properties of NetworkHandler.fetchWithRetry\<close>

text \<open>
  One attempt with a payload that cannot be serialised: no \<open>fetch\<close> call is made, and
  the error of \<open>JSON.stringify\<close> is retried or thrown like any other.
\<close>

lemma fwr_unserialisable_last:
  assumes "serialise stringify data = Inl e" "\<not> retries > 0"
  shows "fetchWithRetry stringify net u m data opts retries s = (Inl e, s)"
  using assms by (simp add: fetchWithRetry.simps [of stringify net u m data opts retries s])

lemma fwr_unserialisable_retry:
  assumes "serialise stringify data = Inl e" "retries > 0"
  shows "fetchWithRetry stringify net u m data opts retries s =
         fetchWithRetry stringify net u m data opts (retries - 1) (sleep 1000 s)"
  using assms by (simp add: fetchWithRetry.simps [of stringify net u m data opts retries s])

lemma fwr_unserialisable:
  assumes "serialise stringify data = Inl e"
  shows "fetchWithRetry stringify net u m data opts (int n) s
         = (Inl e, s\<lparr>waited_ms := waited_ms s + 1000 * n\<rparr>)"
proof (induction n arbitrary: s)
  case 0
  show ?case
    using fwr_unserialisable_last [OF assms, of 0] by simp
next
  case (Suc n)
  have "fetchWithRetry stringify net u m data opts (int (Suc n)) s
        = fetchWithRetry stringify net u m data opts (int n) (sleep 1000 s)"
    using fwr_unserialisable_retry [OF assms, of "int (Suc n)"] by simp
  then show ?case
    by (simp add: Suc.IH sleep_def)
qed

text \<open>
  One attempt with a payload that can be: it succeeds, or fails for the last time, or
  fails and is retried after a second.
\<close>

lemma fwr_ok:
  assumes "serialise stringify data = Inr b"
    and "attempt net (fetch_init u m b opts) s 0 = Inr r" "ok r"
  shows "fetchWithRetry stringify net u m data opts retries s = (json r, after_attempts s 1)"
  using assms
  by (simp add: fetchWithRetry.simps [of stringify net u m data opts retries s]
      fetch_def attempt_def after_attempts_def)

lemma fwr_fail_last:
  assumes "serialise stringify data = Inr b"
    and "attempt_error (attempt net (fetch_init u m b opts) s 0) = Some e" "\<not> retries > 0"
  shows "fetchWithRetry stringify net u m data opts retries s = (Inl e, after_attempts s 1)"
  using assms
  by (auto simp add: fetchWithRetry.simps [of stringify net u m data opts retries s]
      fetch_def attempt_def after_attempts_def attempt_error_def split: sum.splits if_splits)

lemma fwr_fail_retry:
  assumes "serialise stringify data = Inr b"
    and "attempt_error (attempt net (fetch_init u m b opts) s 0) = Some e" "retries > 0"
  shows "fetchWithRetry stringify net u m data opts retries s =
         fetchWithRetry stringify net u m data opts (retries - 1)
           (sleep 1000 (s\<lparr>calls := Suc (calls s)\<rparr>))"
  using assms
  by (auto simp add: fetchWithRetry.simps [of stringify net u m data opts retries s]
      fetch_def attempt_def attempt_error_def split: sum.splits if_splits)

lemma attempt_shift:
  "attempt net req (sleep 1000 (s\<lparr>calls := Suc (calls s)\<rparr>)) i = attempt net req s (Suc i)"
  by (simp add: attempt_def sleep_def)

lemma after_attempts_shift:
  "after_attempts (sleep 1000 (s\<lparr>calls := Suc (calls s)\<rparr>)) (Suc k) = after_attempts s (Suc (Suc k))"
  by (simp add: after_attempts_def sleep_def)

lemma attempt_error_None:
  "attempt_error out = None \<longleftrightarrow> (\<exists>r. out = Inr r \<and> ok r)"
  by (auto simp: attempt_error_def split: sum.splits)

lemma fwr_first_ok:
  assumes "serialise stringify data = Inr b"
    and "i \<le> n" "attempt net (fetch_init u m b opts) s i = Inr r" "ok r"
    and "\<forall>j<i. attempt_error (attempt net (fetch_init u m b opts) s j) \<noteq> None"
  shows "fetchWithRetry stringify net u m data opts (int n) s = (json r, after_attempts s (Suc i))"
  using assms(2-)
proof (induction i arbitrary: n s)
  case 0
  then show ?case by (simp add: fwr_ok [OF assms(1)])
next
  case (Suc i)
  let ?req = "fetch_init u m b opts"
  from Suc.prems(4) obtain e where e: "attempt_error (attempt net ?req s 0) = Some e"
    by auto
  from Suc.prems(1) obtain n' where n: "n = Suc n'" by (cases n) auto
  let ?s = "sleep 1000 (s\<lparr>calls := Suc (calls s)\<rparr>)"
  have "fetchWithRetry stringify net u m data opts (int n) s
        = fetchWithRetry stringify net u m data opts (int n') ?s"
    using fwr_fail_retry [OF assms(1) e, of "int n"] n by simp
  also have "\<dots> = (json r, after_attempts ?s (Suc i))"
  proof (rule Suc.IH)
    show "i \<le> n'" using Suc.prems(1) n by simp
    show "attempt net ?req ?s i = Inr r" using Suc.prems(2) by (simp add: attempt_shift)
    show "ok r" by fact
    show "\<forall>j<i. attempt_error (attempt net ?req ?s j) \<noteq> None"
      using Suc.prems(4) by (simp add: attempt_shift)
  qed
  finally show ?case by (simp add: after_attempts_shift)
qed

lemma fwr_all_fail:
  assumes "serialise stringify data = Inr b"
    and "\<forall>j\<le>n. attempt_error (attempt net (fetch_init u m b opts) s j) \<noteq> None"
  shows "\<exists>e. attempt_error (attempt net (fetch_init u m b opts) s n) = Some e \<and>
             fetchWithRetry stringify net u m data opts (int n) s = (Inl e, after_attempts s (Suc n))"
  using assms(2)
proof (induction n arbitrary: s)
  case 0
  let ?req = "fetch_init u m b opts"
  from 0 obtain e where e: "attempt_error (attempt net ?req s 0) = Some e" by auto
  then show ?case using fwr_fail_last [OF assms(1) e, of 0] by simp
next
  case (Suc n)
  let ?req = "fetch_init u m b opts"
  from Suc.prems obtain e where e: "attempt_error (attempt net ?req s 0) = Some e" by auto
  let ?s = "sleep 1000 (s\<lparr>calls := Suc (calls s)\<rparr>)"
  have step: "fetchWithRetry stringify net u m data opts (int (Suc n)) s
              = fetchWithRetry stringify net u m data opts (int n) ?s"
    using fwr_fail_retry [OF assms(1) e, of "int (Suc n)"] by simp
  have "\<forall>j\<le>n. attempt_error (attempt net ?req ?s j) \<noteq> None"
    using Suc.prems by (simp add: attempt_shift)
  from Suc.IH [OF this] obtain e' where
    "attempt_error (attempt net ?req ?s n) = Some e'"
    "fetchWithRetry stringify net u m data opts (int n) ?s = (Inl e', after_attempts ?s (Suc n))"
    by blast
  then show ?case using step by (simp add: attempt_shift after_attempts_shift)
qed

lemma fwr_calls_serialised:
  assumes "serialise stringify data = Inr b"
  shows "calls (snd (fetchWithRetry stringify net u m data opts (int n) s)) \<le> calls s + n + 1"
proof (induction n arbitrary: s)
  case 0
  let ?req = "fetch_init u m b opts"
  show ?case
  proof (cases "attempt_error (attempt net ?req s 0)")
    case None
    then obtain r where "attempt net ?req s 0 = Inr r" "ok r"
      by (auto simp: attempt_error_None)
    then show ?thesis by (simp add: fwr_ok [OF assms] after_attempts_def)
  next
    case (Some e)
    then show ?thesis
      using fwr_fail_last [OF assms Some, of 0] by (simp add: after_attempts_def)
  qed
next
  case (Suc n)
  let ?req = "fetch_init u m b opts"
  show ?case
  proof (cases "attempt_error (attempt net ?req s 0)")
    case None
    then obtain r where "attempt net ?req s 0 = Inr r" "ok r"
      by (auto simp: attempt_error_None)
    then show ?thesis by (simp add: fwr_ok [OF assms] after_attempts_def)
  next
    case (Some e)
    let ?s = "sleep 1000 (s\<lparr>calls := Suc (calls s)\<rparr>)"
    have "fetchWithRetry stringify net u m data opts (int (Suc n)) s
          = fetchWithRetry stringify net u m data opts (int n) ?s"
      using fwr_fail_retry [OF assms Some, of "int (Suc n)"] by simp
    moreover have "calls ?s = Suc (calls s)" by (simp add: sleep_def)
    ultimately show ?thesis using Suc.IH [of ?s] by simp
  qed
qed

lemma fwr_calls_bound:
  "calls (snd (fetchWithRetry stringify net u m data opts (int n) s)) \<le> calls s + n + 1"
proof (cases "serialise stringify data")
  case (Inl e)
  then show ?thesis by (simp add: fwr_unserialisable)
next
  case (Inr b)
  then show ?thesis by (rule fwr_calls_serialised)
qed

text \<open>
  Claim C9, as stated, on a network whose first answer has \<open>ok = true\<close> and a body that
  is not JSON: the first attempt returns a response with \<open>ok = true\<close>, and the call does
  not return a parsed body. It throws the \<open>SyntaxError\<close> of \<open>json()\<close>, after one
  \<open>fetch\<close> call and no retry.
\<close>

theorem fetchWithRetry_unparsable_counterexample:
  "attempt html_net (fetch_init ''/audit'' ''POST'' (Some ''{}'') no_options) \<lparr>calls = 0, waited_ms = 0\<rparr> 0
     = Inr \<lparr>ok = True, json = Inl (SyntaxError ''Unexpected token in JSON'')\<rparr>
   \<and> fetchWithRetry stringify_text html_net ''/audit'' ''POST'' (Some ''{}'') no_options default_retries
        \<lparr>calls = 0, waited_ms = 0\<rparr>
     = (Inl (SyntaxError ''Unexpected token in JSON''), \<lparr>calls = 1, waited_ms = 0\<rparr>)"
  by (simp add: fetchWithRetry.simps [of stringify_text html_net] attempt_def html_net_def
      serialise_def stringify_text_def fetch_def default_retries_def)

text \<open>
  Claim C9, amended. Called with its default \<open>retries = 3\<close>, \<open>fetchWithRetry\<close> makes at
  most four \<open>fetch\<close> attempts. If attempt \<open>i\<close> (of the four) is the first to resolve to a
  response with \<open>ok = true\<close>, no further attempt is made, and the call returns that
  response's parsed JSON body when the body parses, and throws the error of \<open>json()\<close>
  when it does not. If all four attempts fail, by a rejection or by a response with
  \<open>ok = false\<close>, the call throws the error of the fourth attempt: the rejection reason, or
  \<open>Error('Network Error')\<close>. If the payload cannot be serialised, no \<open>fetch\<close> call is made
  and, after three waits, the call throws the error of \<open>JSON.stringify\<close>.
\<close>

theorem fetchWithRetry_default:
  "calls (snd (fetchWithRetry stringify net u m data opts default_retries s)) \<le> calls s + 4
   \<and> (\<forall>b i r. serialise stringify data = Inr b
           \<and> i < 4 \<and> attempt net (fetch_init u m b opts) s i = Inr r \<and> ok r
           \<and> (\<forall>j<i. attempt_error (attempt net (fetch_init u m b opts) s j) \<noteq> None)
        \<longrightarrow> snd (fetchWithRetry stringify net u m data opts default_retries s) = after_attempts s (Suc i)
          \<and> (\<forall>v. json r = Inr v
                \<longrightarrow> fst (fetchWithRetry stringify net u m data opts default_retries s) = Inr v)
          \<and> (\<forall>e. json r = Inl e
                \<longrightarrow> fst (fetchWithRetry stringify net u m data opts default_retries s) = Inl e))
   \<and> (\<forall>b. serialise stringify data = Inr b
           \<and> (\<forall>j<4. attempt_error (attempt net (fetch_init u m b opts) s j) \<noteq> None)
        \<longrightarrow> (\<exists>e. attempt_error (attempt net (fetch_init u m b opts) s 3) = Some e
                \<and> fetchWithRetry stringify net u m data opts default_retries s = (Inl e, after_attempts s 4)))
   \<and> (\<forall>e. serialise stringify data = Inl e
        \<longrightarrow> fetchWithRetry stringify net u m data opts default_retries s
            = (Inl e, s\<lparr>waited_ms := waited_ms s + 3000\<rparr>))"
proof -
  have bound: "calls (snd (fetchWithRetry stringify net u m data opts default_retries s)) \<le> calls s + 4"
    using fwr_calls_bound [of stringify net u m data opts 3 s] by (simp add: default_retries_def)
  have first_ok: "fetchWithRetry stringify net u m data opts default_retries s
                  = (json r, after_attempts s (Suc i))"
    if "serialise stringify data = Inr b" "i < 4"
      "attempt net (fetch_init u m b opts) s i = Inr r" "ok r"
      "\<forall>j<i. attempt_error (attempt net (fetch_init u m b opts) s j) \<noteq> None"
    for b i r
  proof -
    from that(2) have "i \<le> 3" by simp
    from fwr_first_ok [OF that(1) this that(3) that(4) that(5)]
    show ?thesis by (simp add: default_retries_def)
  qed
  have all_fail: "\<exists>e. attempt_error (attempt net (fetch_init u m b opts) s 3) = Some e
                \<and> fetchWithRetry stringify net u m data opts default_retries s = (Inl e, after_attempts s 4)"
    if "serialise stringify data = Inr b"
      "\<forall>j<4. attempt_error (attempt net (fetch_init u m b opts) s j) \<noteq> None"
    for b
  proof -
    from that(2) have "\<forall>j\<le>3. attempt_error (attempt net (fetch_init u m b opts) s j) \<noteq> None"
      by simp
    from fwr_all_fail [OF that(1) this]
    show ?thesis by (simp add: default_retries_def)
  qed
  have unserialisable: "fetchWithRetry stringify net u m data opts default_retries s
            = (Inl e, s\<lparr>waited_ms := waited_ms s + 3000\<rparr>)"
    if "serialise stringify data = Inl e" for e
    using fwr_unserialisable [OF that, of net u m opts 3 s] by (simp add: default_retries_def)
  show ?thesis
  proof (intro conjI allI impI)
    show "calls (snd (fetchWithRetry stringify net u m data opts default_retries s)) \<le> calls s + 4"
      by (rule bound)
  next
    fix b i r
    assume h: "serialise stringify data = Inr b
           \<and> i < 4 \<and> attempt net (fetch_init u m b opts) s i = Inr r \<and> ok r
           \<and> (\<forall>j<i. attempt_error (attempt net (fetch_init u m b opts) s j) \<noteq> None)"
    with first_ok [of b i r]
    have eq: "fetchWithRetry stringify net u m data opts default_retries s
              = (json r, after_attempts s (Suc i))"
      by blast
    show "snd (fetchWithRetry stringify net u m data opts default_retries s) = after_attempts s (Suc i)"
      by (simp add: eq)
    show "fst (fetchWithRetry stringify net u m data opts default_retries s) = Inr v"
      if "json r = Inr v" for v
      using that by (simp add: eq)
    show "fst (fetchWithRetry stringify net u m data opts default_retries s) = Inl e"
      if "json r = Inl e" for e
      using that by (simp add: eq)
  next
    fix b
    assume "serialise stringify data = Inr b
           \<and> (\<forall>j<4. attempt_error (attempt net (fetch_init u m b opts) s j) \<noteq> None)"
    with all_fail [of b]
    show "\<exists>e. attempt_error (attempt net (fetch_init u m b opts) s 3) = Some e
                \<and> fetchWithRetry stringify net u m data opts default_retries s = (Inl e, after_attempts s 4)"
      by blast
  next
    fix e
    assume "serialise stringify data = Inl e"
    then show "fetchWithRetry stringify net u m data opts default_retries s
            = (Inl e, s\<lparr>waited_ms := waited_ms s + 3000\<rparr>)"
      by (rule unserialisable)
  qed
qed

theorem fetchWithRetry_default_witness:
  "fetchWithRetry stringify_text flaky_net ''/audit'' ''POST'' (Some ''{}'') no_options default_retries
       \<lparr>calls = 0, waited_ms = 0\<rparr>
     = (Inr 7, \<lparr>calls = 3, waited_ms = 2000\<rparr>)
   \<and> fetchWithRetry stringify_text html_net ''/audit'' ''POST'' (Some ''{}'') no_options default_retries
       \<lparr>calls = 5, waited_ms = 0\<rparr>
     = (Inl (SyntaxError ''Unexpected token in JSON''), \<lparr>calls = 6, waited_ms = 0\<rparr>)
   \<and> fetchWithRetry stringify_text down_net ''/audit'' ''POST'' (Some ''{}'') no_options default_retries
       \<lparr>calls = 0, waited_ms = 0\<rparr>
     = (Inl (TypeError ''Failed to fetch''), \<lparr>calls = 4, waited_ms = 3000\<rparr>)
   \<and> fetchWithRetry stringify_circular flaky_net ''/audit'' ''POST'' (Some ''{}'') no_options default_retries
       \<lparr>calls = 0, waited_ms = 0\<rparr>
     = (Inl (TypeError ''Converting circular structure to JSON''), \<lparr>calls = 0, waited_ms = 3000\<rparr>)"
proof (intro conjI)
  let ?s = "\<lparr>calls = 0, waited_ms = 0\<rparr>"
  let ?req = "fetch_init ''/audit'' ''POST'' (Some ''{}'') no_options"
  let ?r = "\<lparr>ok = True, json = Inr (7::nat)\<rparr>"
  let ?call = "fetchWithRetry stringify_text flaky_net ''/audit'' ''POST'' (Some ''{}'') no_options
                 default_retries ?s"
  have "serialise stringify_text (Some ''{}'') = Inr (Some ''{}'')
        \<and> (2::nat) < 4 \<and> attempt flaky_net ?req ?s 2 = Inr ?r \<and> ok ?r
        \<and> (\<forall>j<2. attempt_error (attempt flaky_net ?req ?s j) \<noteq> None)"
    by (simp add: serialise_def stringify_text_def attempt_def flaky_net_def attempt_error_def)
  with fetchWithRetry_default [of stringify_text flaky_net "''/audit''" "''POST''" "Some ''{}''" no_options ?s]
  have "snd ?call = after_attempts ?s (Suc 2) \<and> (\<forall>v. json ?r = Inr v \<longrightarrow> fst ?call = Inr v)"
    by blast
  then have "snd ?call = \<lparr>calls = 3, waited_ms = 2000\<rparr> \<and> fst ?call = Inr 7"
    by (simp add: after_attempts_def)
  then show "?call = (Inr 7, \<lparr>calls = 3, waited_ms = 2000\<rparr>)"
    by (simp add: prod_eq_iff)
next
  let ?s = "\<lparr>calls = 5, waited_ms = 0\<rparr>"
  let ?req = "fetch_init ''/audit'' ''POST'' (Some ''{}'') no_options"
  let ?r = "\<lparr>ok = True, json = Inl (SyntaxError ''Unexpected token in JSON'') :: error + nat\<rparr>"
  let ?call = "fetchWithRetry stringify_text html_net ''/audit'' ''POST'' (Some ''{}'') no_options
                 default_retries ?s"
  have "serialise stringify_text (Some ''{}'') = Inr (Some ''{}'')
        \<and> (0::nat) < 4 \<and> attempt html_net ?req ?s 0 = Inr ?r \<and> ok ?r
        \<and> (\<forall>j<0. attempt_error (attempt html_net ?req ?s j) \<noteq> None)"
    by (simp add: serialise_def stringify_text_def attempt_def html_net_def)
  with fetchWithRetry_default [of stringify_text html_net "''/audit''" "''POST''" "Some ''{}''" no_options ?s]
  have "snd ?call = after_attempts ?s (Suc 0) \<and> (\<forall>e. json ?r = Inl e \<longrightarrow> fst ?call = Inl e)"
    by blast
  then have "snd ?call = \<lparr>calls = 6, waited_ms = 0\<rparr>
             \<and> fst ?call = Inl (SyntaxError ''Unexpected token in JSON'')"
    by (simp add: after_attempts_def)
  then show "?call = (Inl (SyntaxError ''Unexpected token in JSON''), \<lparr>calls = 6, waited_ms = 0\<rparr>)"
    by (simp add: prod_eq_iff)
next
  let ?s = "\<lparr>calls = 0, waited_ms = 0\<rparr>"
  let ?req = "fetch_init ''/audit'' ''POST'' (Some ''{}'') no_options"
  let ?call = "fetchWithRetry stringify_text down_net ''/audit'' ''POST'' (Some ''{}'') no_options
                 default_retries ?s"
  have c: "serialise stringify_text (Some ''{}'') = Inr (Some ''{}'')
           \<and> (\<forall>j<4. attempt_error (attempt down_net ?req ?s j) \<noteq> None)"
    by (simp add: serialise_def stringify_text_def attempt_def down_net_def attempt_error_def)
  have d: "attempt_error (attempt down_net ?req ?s 3) = Some (TypeError ''Failed to fetch'')"
    by (simp add: attempt_def down_net_def attempt_error_def)
  from c fetchWithRetry_default [of stringify_text down_net "''/audit''" "''POST''" "Some ''{}''" no_options ?s]
  obtain e where "attempt_error (attempt down_net ?req ?s 3) = Some e"
    "?call = (Inl e, after_attempts ?s 4)"
    by blast
  with d show "?call = (Inl (TypeError ''Failed to fetch''), \<lparr>calls = 4, waited_ms = 3000\<rparr>)"
    by (simp add: after_attempts_def)
next
  let ?s = "\<lparr>calls = 0, waited_ms = 0\<rparr>"
  let ?call = "fetchWithRetry stringify_circular flaky_net ''/audit'' ''POST'' (Some ''{}'') no_options
                 default_retries ?s"
  have "serialise stringify_circular (Some ''{}'') = Inl (TypeError ''Converting circular structure to JSON'')"
    by (simp add: serialise_def stringify_circular_def)
  with fetchWithRetry_default [of stringify_circular flaky_net "''/audit''" "''POST''" "Some ''{}''" no_options ?s]
  have "?call = (Inl (TypeError ''Converting circular structure to JSON''), ?s\<lparr>waited_ms := waited_ms ?s + 3000\<rparr>)"
    by blast
  then show "?call = (Inl (TypeError ''Converting circular structure to JSON''), \<lparr>calls = 0, waited_ms = 3000\<rparr>)"
    by simp
qed

section \<open>Properties of CulturalManager.translate\<close>

text \<open>
  Claim C10, as stated, at a table whose entry for the key is the empty string:
  \<open>translate\<close> does not return the stored translation \<open>""\<close>; the \<open>||\<close> falls through
  to the key, and the result is the key.
\<close>

theorem translate_empty_entry_counterexample:
  "translate (manager_with [''greeting'' \<mapsto> Str '''']) ''greeting'' = Inr (Str ''greeting'')
   \<and> translate (manager_with [''greeting'' \<mapsto> Str '''']) ''greeting'' \<noteq> Inr (Str '''')"
  by (simp add: translate_def manager_with_def new_CulturalManager_def get_property_def js_or_def)

text \<open>
  Claim C10, amended. When the settings hold a table of translations, \<open>translate(k)\<close>
  returns the stored value if the table has an entry for \<open>k\<close> that is truthy (any
  non-empty string is); it returns \<open>k\<close> itself if the entry is falsy (the empty string,
  \<open>0\<close>, \<open>false\<close>, \<open>null\<close>), and also if there is no entry and \<open>k\<close> is not the name of a
  member inherited from \<open>Object.prototype\<close>. It never returns \<open>undefined\<close>.
\<close>

theorem translate_truthy_or_key:
  assumes "localeSettings cm = Some ls" and "translations_table ls = Some table"
  shows "(\<forall>v. table k = Some v \<and> truthy v \<longrightarrow> translate cm k = Inr v)
       \<and> (\<forall>v. table k = Some v \<and> \<not> truthy v \<longrightarrow> translate cm k = Inr (Str k))
       \<and> (table k = None \<and> k \<notin> set object_prototype \<longrightarrow> translate cm k = Inr (Str k))
       \<and> translate cm k \<noteq> Inr Undefined"
  using assms
  by (auto simp add: translate_def get_property_def js_or_def split: option.splits)

theorem translate_truthy_or_key_witness:
  "translate (manager_with [''greeting'' \<mapsto> Str ''Sawubona'', ''farewell'' \<mapsto> Str '''']) ''greeting''
     = Inr (Str ''Sawubona'')
   \<and> translate (manager_with [''greeting'' \<mapsto> Str ''Sawubona'', ''farewell'' \<mapsto> Str '''']) ''farewell''
     = Inr (Str ''farewell'')
   \<and> translate (manager_with [''greeting'' \<mapsto> Str ''Sawubona'', ''farewell'' \<mapsto> Str '''']) ''error.title''
     = Inr (Str ''error.title'')"
proof -
  let ?t = "[''greeting'' \<mapsto> Str ''Sawubona'', ''farewell'' \<mapsto> Str '''']"
  have ls: "localeSettings (manager_with ?t) = Some \<lparr>translations_table = Some ?t\<rparr>"
    by (simp add: manager_with_def new_CulturalManager_def)
  have tt: "translations_table \<lparr>translations_table = Some ?t\<rparr> = Some ?t"
    by simp
  have a: "?t ''greeting'' = Some (Str ''Sawubona'') \<and> truthy (Str ''Sawubona'')"
    by simp
  have b: "?t ''farewell'' = Some (Str '''') \<and> \<not> truthy (Str '''')"
    by simp
  have c: "?t ''error.title'' = None \<and> ''error.title'' \<notin> set object_prototype"
    by (simp add: object_prototype_def)
  from translate_truthy_or_key [OF ls tt, of "''greeting''"] a
  have 1: "translate (manager_with ?t) ''greeting'' = Inr (Str ''Sawubona'')"
    by blast
  from translate_truthy_or_key [OF ls tt, of "''farewell''"] b
  have 2: "translate (manager_with ?t) ''farewell'' = Inr (Str ''farewell'')"
    by blast
  from translate_truthy_or_key [OF ls tt, of "''error.title''"] c
  have 3: "translate (manager_with ?t) ''error.title'' = Inr (Str ''error.title'')"
    by blast
  from 1 2 3 show ?thesis by simp
qed

section \<open>Properties of CulturalManager.loadHolidayData\<close>

text \<open>The ways a call ends: the holidays are replaced, or the error goes to \<open>trackError\<close>.\<close>

lemma loadHolidayData_fulfilled:
  assumes "nw (holidayRequest year (currentRegion (cultural a))) (calls (netState a)) = Inr res"
    and "json res = Inr v"
  shows "loadHolidayData nw tk year a =
         (Inr (), a\<lparr>cultural := (cultural a)\<lparr>holidays := v\<rparr>,
                    netState := (netState a)\<lparr>calls := Suc (calls (netState a))\<rparr>\<rparr>)"
  using assms by (simp add: loadHolidayData_def fetch_def)



text \<open>
  Claim C4, as stated, on a page set to region ZA in the year 2026, with a network whose
  first call times out and whose second call answers: two calls for the same region and
  year leave different holiday sets, the empty list and then the list sent.
\<close>

theorem loadHolidayData_same_region_year_counterexample:
  "currentRegion (cultural (snd (loadHolidayData late_net telemetry_records 2026 page_ZA)))
     = currentRegion (cultural page_ZA)
   \<and> holidays (cultural (snd (loadHolidayData late_net telemetry_records 2026 page_ZA))) = Arr []
   \<and> holidays (cultural (snd (loadHolidayData late_net telemetry_records 2026
        (snd (loadHolidayData late_net telemetry_records 2026 page_ZA))))) = new_year
   \<and> holidays (cultural (snd (loadHolidayData late_net telemetry_records 2026
        (snd (loadHolidayData late_net telemetry_records 2026 page_ZA)))))
       \<noteq> holidays (cultural (snd (loadHolidayData late_net telemetry_records 2026 page_ZA)))"
  by (simp add: loadHolidayData_def fetch_def catch_trackError_def telemetry_records_def late_net_def
      page_ZA_def new_CulturalManager_def new_year_def)

text \<open>
  Claim C4, amended. The request of \<open>loadHolidayData\<close> is a function of the region and
  the year alone, and the holidays it leaves are a function of the response to that
  request and of the holidays before: the parsed body when the fetch resolves and the
  body parses, the previous holidays otherwise. So two calls for the same region and year
  leave identical holidays whenever both are answered with the same body.
\<close>

theorem loadHolidayData_determined_by_response:
  "url (holidayRequest year (currentRegion (cultural a)) :: 'd request)
     = ''https://date.nager.at/api/v3/PublicHolidays/'' @ decimal year @ ''/'' @ currentRegion (cultural a)
   \<and> holidays (cultural (snd (loadHolidayData nw tk year a))) =
       (case nw (holidayRequest year (currentRegion (cultural a))) (calls (netState a)) of
          Inl e \<Rightarrow> holidays (cultural a)
        | Inr res \<Rightarrow> (case json res of Inl e \<Rightarrow> holidays (cultural a) | Inr v \<Rightarrow> v))
   \<and> (\<forall>r1 r2 v.
         nw (holidayRequest year (currentRegion (cultural a))) (calls (netState a)) = Inr r1
         \<and> nw (holidayRequest year (currentRegion (cultural a))) (Suc (calls (netState a))) = Inr r2
         \<and> json r1 = Inr v \<and> json r2 = Inr v
       \<longrightarrow> holidays (cultural (snd (loadHolidayData nw tk year (snd (loadHolidayData nw tk year a)))))
           = holidays (cultural (snd (loadHolidayData nw tk year a))))"
  for nw :: "('d, js_value) network"
proof (intro conjI allI impI)
  show "url (holidayRequest year (currentRegion (cultural a)) :: 'd request)
     = ''https://date.nager.at/api/v3/PublicHolidays/'' @ decimal year @ ''/'' @ currentRegion (cultural a)"
    by (simp add: holidayRequest_def)
next
  show "holidays (cultural (snd (loadHolidayData nw tk year a))) =
       (case nw (holidayRequest year (currentRegion (cultural a))) (calls (netState a)) of
          Inl e \<Rightarrow> holidays (cultural a)
        | Inr res \<Rightarrow> (case json res of Inl e \<Rightarrow> holidays (cultural a) | Inr v \<Rightarrow> v))"
    by (simp add: loadHolidayData_def fetch_def catch_trackError_def split: sum.splits option.splits)
next
  fix r1 r2 v
  assume h: "nw (holidayRequest year (currentRegion (cultural a))) (calls (netState a)) = Inr r1
         \<and> nw (holidayRequest year (currentRegion (cultural a))) (Suc (calls (netState a))) = Inr r2
         \<and> json r1 = Inr v \<and> json r2 = Inr v"
  let ?a1 = "snd (loadHolidayData nw tk year a)"
  have 1: "?a1 = a\<lparr>cultural := (cultural a)\<lparr>holidays := v\<rparr>,
                   netState := (netState a)\<lparr>calls := Suc (calls (netState a))\<rparr>\<rparr>"
    using h by (simp add: loadHolidayData_fulfilled)
  have "nw (holidayRequest year (currentRegion (cultural ?a1))) (calls (netState ?a1)) = Inr r2"
    using h by (simp add: 1)
  then have "snd (loadHolidayData nw tk year ?a1) =
      ?a1\<lparr>cultural := (cultural ?a1)\<lparr>holidays := v\<rparr>,
          netState := (netState ?a1)\<lparr>calls := Suc (calls (netState ?a1))\<rparr>\<rparr>"
    using h by (simp add: loadHolidayData_fulfilled)
  then show "holidays (cultural (snd (loadHolidayData nw tk year ?a1))) = holidays (cultural ?a1)"
    by (simp add: 1)
qed

theorem loadHolidayData_determined_by_response_witness:
  "holidays (cultural (snd (loadHolidayData steady_net telemetry_records 2026
      (snd (loadHolidayData steady_net telemetry_records 2026 page_ZA)))))
     = holidays (cultural (snd (loadHolidayData steady_net telemetry_records 2026 page_ZA)))
   \<and> holidays (cultural (snd (loadHolidayData steady_net telemetry_records 2026 page_ZA))) = new_year"
proof -
  let ?r = "\<lparr>ok = True, json = Inr new_year\<rparr>"
  have "steady_net (holidayRequest 2026 (currentRegion (cultural page_ZA))) (calls (netState page_ZA)) = Inr ?r
        \<and> steady_net (holidayRequest 2026 (currentRegion (cultural page_ZA))) (Suc (calls (netState page_ZA))) = Inr ?r
        \<and> json ?r = Inr new_year \<and> json ?r = Inr new_year"
    by (simp add: steady_net_def)
  with loadHolidayData_determined_by_response [of 2026 page_ZA steady_net telemetry_records]
  have a: "holidays (cultural (snd (loadHolidayData steady_net telemetry_records 2026
      (snd (loadHolidayData steady_net telemetry_records 2026 page_ZA)))))
     = holidays (cultural (snd (loadHolidayData steady_net telemetry_records 2026 page_ZA)))"
    by blast
  have b: "holidays (cultural (snd (loadHolidayData steady_net telemetry_records 2026 page_ZA))) = new_year"
    using loadHolidayData_determined_by_response [of 2026 page_ZA steady_net telemetry_records]
    by (simp add: steady_net_def)
  from a b show ?thesis by simp
qed




section \<open>Properties of the urgency classification\<close>

text \<open>
  Claim C1, as stated, at a duration of exactly two hours (7200 seconds) under the default
  thresholds. The claim's bounds make the window amber (it is within one and two hours,
  both included) and not green (it is not above two hours); the window is green, as the
  claim's own boundary value says.
\<close>

theorem classifyUrgency_two_hours_counterexample:
  "classifyUrgency default_thresholds 7200 = Green
   \<and> \<not> (classifyUrgency default_thresholds 7200 = Amber \<longleftrightarrow> (3600::nat) \<le> 7200 \<and> (7200::nat) \<le> 7200)
   \<and> \<not> (classifyUrgency default_thresholds 7200 = Green \<longleftrightarrow> (7200::nat) > 7200)"
  by (simp add: classifyUrgency_def default_thresholds_def)

text \<open>
  Claim C1, amended. The urgency is a function of the duration \<open>d\<close> and the thresholds:
  red iff \<open>d\<close> is below the lower threshold, amber iff \<open>d\<close> is at least the lower and
  below the upper threshold, green iff \<open>d\<close> is at least the upper threshold. With the
  default thresholds of one and two hours, 59m59s is red, 1h00m00s and 1h59m59s are
  amber, and 2h00m00s is green.
\<close>

theorem classifyUrgency_by_duration:
  assumes "red_below th \<le> amber_below th"
  shows "(classifyUrgency th d = Red \<longleftrightarrow> d < red_below th)
       \<and> (classifyUrgency th d = Amber \<longleftrightarrow> red_below th \<le> d \<and> d < amber_below th)
       \<and> (classifyUrgency th d = Green \<longleftrightarrow> amber_below th \<le> d)
       \<and> classifyUrgency default_thresholds 3599 = Red
       \<and> classifyUrgency default_thresholds 3600 = Amber
       \<and> classifyUrgency default_thresholds 7199 = Amber
       \<and> classifyUrgency default_thresholds 7200 = Green"
  using assms by (auto simp add: classifyUrgency_def default_thresholds_def)

theorem classifyUrgency_by_duration_witness:
  "red_below default_thresholds \<le> amber_below default_thresholds
   \<and> (classifyUrgency default_thresholds 5400 = Amber \<longleftrightarrow> 3600 \<le> (5400::nat) \<and> (5400::nat) < 7200)
   \<and> classifyUrgency default_thresholds 5400 = Amber
   \<and> classifyUrgency default_thresholds 7200 = Green"
proof -
  have h: "red_below default_thresholds \<le> amber_below default_thresholds"
    by (simp add: default_thresholds_def)
  from classifyUrgency_by_duration [OF h, of 5400] h show ?thesis
    by (simp add: default_thresholds_def)
qed

end
